theory Spec2Isabelle
  imports Main
begin

section \<open>Python strings\<close>

text \<open>
  A Python \<open>str\<close> is modelled as a \<open>string\<close>: a list of characters, each standing for
  a code point below 256. The string methods used by the program are written out as list
  functions.
\<close>

text \<open>\<open>str.isspace\<close> on one character: the white-space code points below 256.\<close>

definition isspace :: "char \<Rightarrow> bool" where
  "isspace c = (let n = (of_char c :: nat) in
     (9 \<le> n \<and> n \<le> 13) \<or> (28 \<le> n \<and> n \<le> 32) \<or> n = 133 \<or> n = 160)"

text \<open>\<open>str.lower\<close> on one character: A-Z and the upper-case letters of Latin-1.\<close>

definition lower_char :: "char \<Rightarrow> char" where
  "lower_char c = (let n = (of_char c :: nat) in
     if (65 \<le> n \<and> n \<le> 90) \<or> (192 \<le> n \<and> n \<le> 222 \<and> n \<noteq> 215)
     then char_of (n + 32) else c)"

definition lower :: "string \<Rightarrow> string" where
  "lower s = map lower_char s"

text \<open>\<open>s.strip()\<close>: leading and trailing white space removed.\<close>

definition strip :: "string \<Rightarrow> string" where
  "strip s = rev (dropWhile isspace (rev (dropWhile isspace s)))"

text \<open>\<open>s.endswith(suf)\<close> and \<open>s.startswith(pre)\<close>.\<close>

definition endswith :: "string \<Rightarrow> string \<Rightarrow> bool" where
  "endswith s suf = (length suf \<le> length s \<and> drop (length s - length suf) s = suf)"

definition startswith :: "string \<Rightarrow> string \<Rightarrow> bool" where
  "startswith s pre = (take (length pre) s = pre)"

section \<open>Exceptions\<close>

text \<open>
  The exceptions that the program raises or lets through. \<open>ValidationError\<close> is the
  error of a model constructor and carries the names of the fields whose validator failed;
  \<open>JSONDecodeError\<close> and \<open>ValidationError\<close> are subclasses of \<open>ValueError\<close> in
  Python. \<open>OtherException\<close> stands for whatever an external service (the language
  model, the web search) may raise.
\<close>

datatype exn =
    ValueError string
  | ValidationError "string list"
  | JSONDecodeError
  | KeyError string
  | TypeError
  | OtherException string

fun is_ValueError :: "exn \<Rightarrow> bool" where
  "is_ValueError (ValueError m) = True"
| "is_ValueError (ValidationError fs) = True"
| "is_ValueError JSONDecodeError = True"
| "is_ValueError e = False"

section \<open>models.py: Recipe\<close>

record Recipe =
  name :: string
  ingredients :: "string list"
  steps :: "string list"
  required_tools :: "string list"
  cooking_time :: string
  difficulty :: string
  servings :: int

text \<open>
  \<open>validate_difficulty\<close>: the value is lower-cased and must then be one of the allowed
  words. The message of the source joins the allowed set in the set's iteration order,
  which Python leaves open; the model fixes one order for the message text.
\<close>

definition validate_difficulty :: "string \<Rightarrow> exn + string" where
  "validate_difficulty v =
     (let allowed = {''easy'', ''medium'', ''hard''};
          v' = lower v
      in if v' \<notin> allowed
         then Inl (ValueError ''Difficulty must be one of: easy, medium, hard'')
         else Inr v')"

definition validate_servings :: "int \<Rightarrow> exn + int" where
  "validate_servings v =
     (if v < 1 then Inl (ValueError ''Servings must be a positive number'') else Inr v)"

definition validate_cooking_time :: "string \<Rightarrow> string" where
  "validate_cooking_time v =
     (if \<not> endswith (strip v) ''minutes'' then strip v @ '' minutes'' else v)"

text \<open>
  Constructing a \<open>Recipe\<close> from field values of the right types: every field validator
  runs, the failures are collected in field order into one \<open>ValidationError\<close>, and
  without a failure the record holds the validators' results.
\<close>

definition Recipe_init :: "Recipe \<Rightarrow> exn + Recipe" where
  "Recipe_init raw =
     (let ct = validate_cooking_time (cooking_time raw) in
      case (validate_difficulty (difficulty raw), validate_servings (servings raw)) of
        (Inr d, Inr s) \<Rightarrow> Inr (raw\<lparr>cooking_time := ct, difficulty := d, servings := s\<rparr>)
      | (Inl _, Inr _) \<Rightarrow> Inl (ValidationError [''difficulty''])
      | (Inr _, Inl _) \<Rightarrow> Inl (ValidationError [''servings''])
      | (Inl _, Inl _) \<Rightarrow> Inl (ValidationError [''difficulty'', ''servings'']))"

section \<open>models.py: ToolSet\<close>

record ToolSet =
  available_tools :: "string list"

text \<open>\<open>ToolSet()\<close>: the default tool list.\<close>

definition ToolSet_default :: ToolSet where
  "ToolSet_default = \<lparr>available_tools =
     [''Spatula'', ''Frying Pan'', ''Little Pot'', ''Stovetop'',
      ''Whisk'', ''Knife'', ''Ladle'', ''Spoon'']\<rparr>"

text \<open>An absent recipe is falsy, a present one is truthy.\<close>

definition can_cook_recipe :: "ToolSet \<Rightarrow> Recipe option \<Rightarrow> bool" where
  "can_cook_recipe self rcp =
     (case rcp of
        None \<Rightarrow> True
      | Some r \<Rightarrow>
          (let required = set (map lower (required_tools r));
               available = set (map lower (available_tools self))
           in required \<subseteq> available))"

section \<open>models.py: AgentState\<close>

record AgentState =
  query :: string
  is_cooking_related :: bool
  needs_research :: bool
  research_results :: "string list"
  recipe :: "Recipe option"
  reasoning_chain :: "string list"
  final_response :: "string option"

text \<open>\<open>AgentState(query=q)\<close>: every other field at its default.\<close>

definition AgentState_init :: "string \<Rightarrow> AgentState" where
  "AgentState_init q =
     \<lparr>query = q, is_cooking_related = False, needs_research = False,
      research_results = [], recipe = None, reasoning_chain = [], final_response = None\<rparr>"

section \<open>tools.py\<close>

text \<open>
  The language model is a function from the prompt it is sent to the content of its
  answer, or to the exception of a failed call. A prompt is kept as the template that
  was filled together with the values filled in, not as the rendered text.
\<close>

datatype prompt =
    QUERY_CLASSIFIER_PROMPT string
  | RESEARCH_NEEDED_PROMPT string
  | RECIPE_PARSER_PROMPT "string list"
  | FINAL_RESPONSE_PROMPT string Recipe bool "string list"
  | HOW_TO_COOK_PROMPT string "string list"
  | GENERAL_COOKING_PROMPT string

type_synonym llm = "prompt \<Rightarrow> exn + string"

text \<open>
  The web search: the query text and \<open>max_results\<close> give a list of results, each a
  dictionary from field names to text (an association list), or an exception.
\<close>

type_synonym ddgs = "string \<Rightarrow> nat \<Rightarrow> exn + (string \<times> string) list list"

text \<open>\<open>[result['body'] for result in results]\<close>: a result without the key raises.\<close>

fun bodies :: "(string \<times> string) list list \<Rightarrow> exn + string list" where
  "bodies [] = Inr []"
| "bodies (result # results) =
     (case map_of result ''body'' of
        None \<Rightarrow> Inl (KeyError ''body'')
      | Some b \<Rightarrow> (case bodies results of Inl e \<Rightarrow> Inl e | Inr bs \<Rightarrow> Inr (b # bs)))"

definition search_recipes :: "ddgs \<Rightarrow> string \<Rightarrow> exn + string list" where
  "search_recipes ddgs_text q =
     (case ddgs_text (''recipe '' @ q) 3 of
        Inl e \<Rightarrow> Inl e
      | Inr results \<Rightarrow> bodies results)"

text \<open>The two functions of tools.py whose names the step functions of agents.py reuse
  carry the prefix \<open>tools_\<close>.\<close>

definition tools_classify_query :: "llm \<Rightarrow> string \<Rightarrow> exn + bool" where
  "tools_classify_query llm q =
     (case llm (QUERY_CLASSIFIER_PROMPT q) of
        Inl e \<Rightarrow> Inl e
      | Inr content \<Rightarrow> Inr (strip (lower content) = ''true''))"

definition tools_needs_research :: "llm \<Rightarrow> string \<Rightarrow> exn + bool" where
  "tools_needs_research llm q =
     (case llm (RESEARCH_NEEDED_PROMPT q) of
        Inl e \<Rightarrow> Inl e
      | Inr content \<Rightarrow> Inr (strip (lower content) = ''true''))"

text \<open>
  \<open>parse_recipe\<close>: the handler catches \<open>json.JSONDecodeError\<close> and \<open>ValueError\<close>
  and returns \<open>None\<close>; any other exception passes through. \<open>json_loads\<close> stands for
  \<open>json.loads\<close> followed by the type checks of the model's fields.
\<close>

definition parse_recipe ::
  "(string \<Rightarrow> exn + Recipe) \<Rightarrow> llm \<Rightarrow> string list \<Rightarrow> exn + Recipe option" where
  "parse_recipe json_loads llm results =
     (let handler = (\<lambda>e. if is_ValueError e then Inr None else Inl e) in
      case llm (RECIPE_PARSER_PROMPT results) of
        Inl e \<Rightarrow> handler e
      | Inr response_content \<Rightarrow>
          (let content = strip response_content;
               content = (if startswith content ''```json'' then drop 7 content else content);
               content = (if endswith content ''```''
                          then take (length content - 3) content else content);
               content = strip content
           in case json_loads content of
                Inl e \<Rightarrow> handler e
              | Inr recipe_dict \<Rightarrow>
                  (case Recipe_init recipe_dict of
                     Inl e \<Rightarrow> handler e
                   | Inr r \<Rightarrow> Inr (Some r))))"

text \<open>\<open>sub in s\<close> for strings.\<close>

fun contains :: "string \<Rightarrow> string \<Rightarrow> bool" where
  "contains [] sub = (sub = [])"
| "contains (c # cs) sub = (startswith (c # cs) sub \<or> contains cs sub)"

text \<open>\<open>s.replace(old, new)\<close> for a non-empty \<open>old\<close>, as the program calls it: the
  occurrences are replaced from left to right, without overlap.\<close>

function replace :: "string \<Rightarrow> string \<Rightarrow> string \<Rightarrow> string" where
  "replace s old new =
     (if s = [] \<or> old = [] then s
      else if startswith s old then new @ replace (drop (length old) s) old new
      else hd s # replace (tl s) old new)"
  by pat_completeness auto
termination
  by (relation "measure (\<lambda>(s, old, new). length s)") auto

text \<open>
  The message that \<open>generate_cooking_response\<close> sends: the recipe prompt when there
  is a recipe, the basic instructions for a query with the words "how to cook", the
  general prompt otherwise.
\<close>

definition response_message :: "string \<Rightarrow> Recipe option \<Rightarrow> ToolSet \<Rightarrow> prompt" where
  "response_message q rcp toolset =
     (let can_cook = (rcp \<noteq> None \<and> can_cook_recipe toolset rcp) in
      case rcp of
        Some r \<Rightarrow> FINAL_RESPONSE_PROMPT q r can_cook (available_tools toolset)
      | None \<Rightarrow>
          if contains (lower q) ''how to cook''
          then HOW_TO_COOK_PROMPT (replace (lower q) ''how to cook '' [])
                 (available_tools toolset)
          else GENERAL_COOKING_PROMPT q)"

definition generate_cooking_response ::
  "llm \<Rightarrow> string \<Rightarrow> Recipe option \<Rightarrow> ToolSet \<Rightarrow> exn + string" where
  "generate_cooking_response llm q rcp toolset =
     (case llm (response_message q rcp toolset) of
        Inl e \<Rightarrow> Inl e
      | Inr content \<Rightarrow>
          if content = [] then Inl (ValueError ''Failed to generate response content'')
          else Inr (strip content))"

text \<open>
  The five tools, \<open>tools[0].func\<close> to \<open>tools[4].func\<close>, named after the tools.
  A tool returns its answer or raises. One run of the workflow calls each tool at most
  once, so a function from the arguments to the answer stands for a tool whose answers
  may differ from one call to the next.
\<close>

record Tools =
  func_classify_query :: "string \<Rightarrow> exn + bool"
  func_needs_research :: "string \<Rightarrow> exn + bool"
  func_search_recipes :: "string \<Rightarrow> exn + string list"
  func_parse_recipe :: "string list \<Rightarrow> exn + Recipe option"
  func_generate_response :: "string \<Rightarrow> Recipe option \<Rightarrow> ToolSet \<Rightarrow> exn + string"

definition create_tools :: "ddgs \<Rightarrow> (string \<Rightarrow> exn + Recipe) \<Rightarrow> llm \<Rightarrow> Tools" where
  "create_tools ddgs_text json_loads llm =
     \<lparr>func_classify_query = (\<lambda>q. tools_classify_query llm q),
      func_needs_research = (\<lambda>q. tools_needs_research llm q),
      func_search_recipes = search_recipes ddgs_text,
      func_parse_recipe = (\<lambda>r. parse_recipe json_loads llm r),
      func_generate_response = (\<lambda>q r t. generate_cooking_response llm q r t)\<rparr>"

section \<open>agents.py: the five steps\<close>

text \<open>
  A step mutates the state object it is given and returns it, or raises. The model
  returns the state as the step left it in both cases, together with the record of the
  tool calls the step made: which tool, with which arguments, and what it gave back.
  Every handler of the steps logs and re-raises, and logging is left out.
\<close>

datatype outcome = Returned AgentState | Raised exn AgentState

datatype event =
    Classify string "exn + bool"
  | NeedsResearch string "exn + bool"
  | Search string "exn + string list"
  | Parse "string list" "exn + Recipe option"
  | Respond string "Recipe option" ToolSet "exn + string"

definition classify_query :: "Tools \<Rightarrow> AgentState \<Rightarrow> outcome \<times> event list" where
  "classify_query tools state =
     (let r = func_classify_query tools (query state) in
      (case r of
         Inl e \<Rightarrow> Raised e state
       | Inr is_cooking \<Rightarrow>
           Returned (state\<lparr>is_cooking_related := is_cooking,
             reasoning_chain := reasoning_chain state @
               [''Query classification: '' @
                (if is_cooking then ''cooking-related'' else ''not cooking-related'')]\<rparr>),
       [Classify (query state) r]))"

definition check_research_needed :: "Tools \<Rightarrow> AgentState \<Rightarrow> outcome \<times> event list" where
  "check_research_needed tools state =
     (if \<not> is_cooking_related state then (Returned state, [])
      else
        let r = func_needs_research tools (query state) in
        (case r of
           Inl e \<Rightarrow> Raised e state
         | Inr needed \<Rightarrow>
             Returned (state\<lparr>needs_research := needed,
               reasoning_chain := reasoning_chain state @
                 [''Research '' @ (if needed then ''needed'' else ''not needed'')]\<rparr>),
         [NeedsResearch (query state) r]))"

definition do_research :: "Tools \<Rightarrow> AgentState \<Rightarrow> outcome \<times> event list" where
  "do_research tools state =
     (if \<not> needs_research state then (Returned state, [])
      else
        let r = func_search_recipes tools (query state) in
        (case r of
           Inl e \<Rightarrow> Raised e state
         | Inr results \<Rightarrow>
             if results = [] then Returned (state\<lparr>research_results := []\<rparr>)
             else Returned (state\<lparr>research_results := results,
                    reasoning_chain := reasoning_chain state @
                      [''Performed recipe research'']\<rparr>),
         [Search (query state) r]))"

definition parse_results :: "Tools \<Rightarrow> AgentState \<Rightarrow> outcome \<times> event list" where
  "parse_results tools state =
     (if research_results state = [] then (Returned state, [])
      else
        let r = func_parse_recipe tools (research_results state) in
        (case r of
           Inl e \<Rightarrow> Raised e state
         | Inr rcp \<Rightarrow>
             Returned (state\<lparr>recipe := rcp,
               reasoning_chain := reasoning_chain state @
                 [''Recipe '' @
                  (if rcp \<noteq> None then ''parsed successfully'' else ''parsing failed'')]\<rparr>),
         [Parse (research_results state) r]))"

definition refusal :: string where
  "refusal = ''I apologize, but I can only help with cooking-related questions. Please ask me about recipes, cooking techniques, or kitchen tools.''"

definition generate_response ::
  "Tools \<Rightarrow> ToolSet \<Rightarrow> AgentState \<Rightarrow> outcome \<times> event list" where
  "generate_response tools toolset state =
     (if \<not> is_cooking_related state
      then (Returned (state\<lparr>final_response := Some refusal\<rparr>), [])
      else
        let r = func_generate_response tools (query state) (recipe state) toolset in
        (case r of
           Inl e \<Rightarrow> Raised e state
         | Inr response \<Rightarrow>
             if response = [] then Raised (ValueError ''Response generation failed'') state
             else Returned (state\<lparr>final_response := Some response,
                    reasoning_chain := reasoning_chain state @
                      [''Generated final response'']\<rparr>),
         [Respond (query state) (recipe state) toolset r]))"

section \<open>agents.py: the workflow graph\<close>

text \<open>
  The graph is the chain classify, check\_research, research, parse, respond, from the
  entry point classify to the finish point respond. A node that raises ends the run:
  the nodes after it do not run.
\<close>

fun next_node ::
  "outcome \<times> event list \<Rightarrow> (AgentState \<Rightarrow> outcome \<times> event list) \<Rightarrow> outcome \<times> event list" where
  "next_node (Returned state, evs) node = (case node state of (out, evs') \<Rightarrow> (out, evs @ evs'))"
| "next_node (Raised e state, evs) node = (Raised e state, evs)"

definition workflow :: "Tools \<Rightarrow> ToolSet \<Rightarrow> AgentState \<Rightarrow> outcome \<times> event list" where
  "workflow tools toolset state =
     next_node (next_node (next_node (next_node
       (classify_query tools state)
       (check_research_needed tools))
       (do_research tools))
       (parse_results tools))
       (generate_response tools toolset)"

definition create_cooking_graph ::
  "ddgs \<Rightarrow> (string \<Rightarrow> exn + Recipe) \<Rightarrow> llm \<Rightarrow> AgentState \<Rightarrow> outcome \<times> event list" where
  "create_cooking_graph ddgs_text json_loads llm =
     workflow (create_tools ddgs_text json_loads llm) ToolSet_default"

text \<open>The state an outcome carries, and whether the run returned.\<close>

fun state_of :: "outcome \<Rightarrow> AgentState" where
  "state_of (Returned state) = state"
| "state_of (Raised e state) = state"

fun returned :: "outcome \<Rightarrow> bool" where
  "returned (Returned state) = True"
| "returned (Raised e state) = False"

section \<open>Notions for stating properties of a run\<close>

text \<open>A search call that came back with an empty list.\<close>

fun empty_search :: "event \<Rightarrow> bool" where
  "empty_search (Search q (Inr [])) = True"
| "empty_search ev = False"

text \<open>\<open>answers tools ev\<close>: asked what the call \<open>ev\<close> asked, \<open>tools\<close> gives the
  answer that \<open>ev\<close> records.\<close>

fun answers :: "Tools \<Rightarrow> event \<Rightarrow> bool" where
  "answers tools (Classify q r) = (func_classify_query tools q = r)"
| "answers tools (NeedsResearch q r) = (func_needs_research tools q = r)"
| "answers tools (Search q r) = (func_search_recipes tools q = r)"
| "answers tools (Parse rs r) = (func_parse_recipe tools rs = r)"
| "answers tools (Respond q rcp toolset r) = (func_generate_response tools q rcp toolset = r)"

text \<open>
  \<open>grows s r\<close>: the result \<open>r\<close> of running from state \<open>s\<close> holds the reasoning
  chain of \<open>s\<close> with entries appended and, when it returned, one appended entry for
  every tool call except the searches that came back empty.
\<close>

definition grows :: "AgentState \<Rightarrow> outcome \<times> event list \<Rightarrow> bool" where
  "grows s r = (\<exists>ext. reasoning_chain (state_of (fst r)) = reasoning_chain s @ ext
      \<and> (returned (fst r) \<longrightarrow> length ext + length (filter empty_search (snd r)) = length (snd r)))"

section \<open>Stand-ins for the external services\<close>

text \<open>Tools that give the same fixed answers whatever they are asked.\<close>

definition fixed_tools ::
  "exn + bool \<Rightarrow> exn + bool \<Rightarrow> exn + string list \<Rightarrow> exn + Recipe option \<Rightarrow> exn + string \<Rightarrow> Tools" where
  "fixed_tools a0 a1 a2 a3 a4 =
     \<lparr>func_classify_query = (\<lambda>q. a0),
      func_needs_research = (\<lambda>q. a1),
      func_search_recipes = (\<lambda>q. a2),
      func_parse_recipe = (\<lambda>rs. a3),
      func_generate_response = (\<lambda>q r t. a4)\<rparr>"

text \<open>A web search that cannot be reached, and one that finds two pages.\<close>

definition ddgs_unreachable :: ddgs where
  "ddgs_unreachable text max_results = Inl (OtherException ''connection failed'')"

definition ddgs_two_pages :: ddgs where
  "ddgs_two_pages text max_results =
     Inr (take max_results
       [[(''title'', ''Risotto''), (''body'', ''Stir the rice'')],
        [(''title'', ''Soup''), (''body'', ''Boil the stock'')]])"

definition example_recipe :: "string list \<Rightarrow> Recipe" where
  "example_recipe required =
     \<lparr>name = ''Omelette'', ingredients = [''eggs''], steps = [''Beat'', ''Fry''],
      required_tools = required, cooking_time = ''10 minutes'', difficulty = ''easy'',
      servings = 1\<rparr>"

section \<open>Properties of the string functions\<close>

lemma endswith_iff: "endswith s suf \<longleftrightarrow> (\<exists>zs. s = zs @ suf)"
  unfolding endswith_def
  by (metis append_eq_conv_conj append_take_drop_id diff_add_inverse2 le_add2 length_append)

lemma lstrip_keeps: "t \<noteq> [] \<Longrightarrow> \<not> isspace (hd t) \<Longrightarrow> \<exists>c. dropWhile isspace (a @ t) = c @ t"
  by (cases t) (auto simp: dropWhile_append)

lemma rstrip_keeps:
  "t \<noteq> [] \<Longrightarrow> \<not> isspace (last t) \<Longrightarrow> rev (dropWhile isspace (rev (c @ t))) = c @ t"
  by (cases t rule: rev_cases) auto

lemma strip_keeps_suffix:
  assumes "t \<noteq> []" "\<not> isspace (hd t)" "\<not> isspace (last t)"
  shows "\<exists>c. strip (a @ t) = c @ t"
  using lstrip_keeps[OF assms(1,2), of a] rstrip_keeps[OF assms(1,3)]
  unfolding strip_def by metis

lemma strip_minutes: "endswith (strip (a @ ''minutes'')) ''minutes''"
proof -
  have "\<not> isspace (hd ''minutes'')" "\<not> isspace (last ''minutes'')"
    by (simp_all add: isspace_def)
  then obtain c where "strip (a @ ''minutes'') = c @ ''minutes''"
    using strip_keeps_suffix[of "''minutes''" a] by auto
  then show ?thesis by (auto simp: endswith_iff)
qed

lemma endswith_strip: "endswith v ''minutes'' \<Longrightarrow> endswith (strip v) ''minutes''"
  using strip_minutes by (auto simp: endswith_iff)

lemma validate_cooking_time_ends: "endswith (strip (validate_cooking_time v)) ''minutes''"
proof (cases "endswith (strip v) ''minutes''")
  case True
  then show ?thesis by (simp add: validate_cooking_time_def)
next
  case False
  have "strip v @ '' minutes'' = (strip v @ '' '') @ ''minutes''" by simp
  then have "endswith (strip (strip v @ '' minutes'')) ''minutes''"
    using strip_minutes[of "strip v @ '' ''"] by simp
  with False show ?thesis by (simp add: validate_cooking_time_def)
qed

section \<open>Recipe validation\<close>

text \<open>
  Claim C10. The cooking-time validator is idempotent: applied to its own result it
  returns that result unchanged, because every result, once stripped, ends with
  "minutes".
\<close>

theorem validate_cooking_time_idempotent:
  "validate_cooking_time (validate_cooking_time v) = validate_cooking_time v
   \<and> endswith (strip (validate_cooking_time v)) ''minutes''"
proof
  show "validate_cooking_time (validate_cooking_time v) = validate_cooking_time v"
    using validate_cooking_time_ends[of v]
    by (simp add: validate_cooking_time_def[of "validate_cooking_time v"])
  show "endswith (strip (validate_cooking_time v)) ''minutes''"
    by (rule validate_cooking_time_ends)
qed

theorem validate_cooking_time_idempotent_witness:
  "validate_cooking_time (validate_cooking_time ''30'') = ''30 minutes''"
proof -
  have e: "validate_cooking_time ''30'' = ''30 minutes''" by code_simp
  have "validate_cooking_time (validate_cooking_time ''30'') = validate_cooking_time ''30''"
    using validate_cooking_time_idempotent[of "''30''"] by simp
  then show ?thesis using e by simp
qed

lemma lower_examples:
  "lower ''EASY'' = ''easy''" "lower ''extreme'' = ''extreme''"
  "lower ''Knife'' = ''knife''" "lower ''Frying Pan'' = ''frying pan''"
  "lower ''knife'' = ''knife''" "lower ''oven'' = ''oven''"
  by code_simp+

lemma validate_difficulty_cases:
  "validate_difficulty v =
     (if lower v \<in> {''easy'', ''medium'', ''hard''} then Inr (lower v)
      else Inl (ValueError ''Difficulty must be one of: easy, medium, hard''))"
  by (simp add: validate_difficulty_def Let_def)

lemma Recipe_init_Inr:
  "lower (difficulty raw) \<in> {''easy'', ''medium'', ''hard''} \<Longrightarrow> 1 \<le> servings raw \<Longrightarrow>
   Recipe_init raw = Inr (raw\<lparr>cooking_time := validate_cooking_time (cooking_time raw),
                              difficulty := lower (difficulty raw)\<rparr>)"
  by (simp add: Recipe_init_def validate_difficulty_cases validate_servings_def)

lemma Recipe_init_isl:
  "isl (Recipe_init raw) \<longleftrightarrow>
     lower (difficulty raw) \<notin> {''easy'', ''medium'', ''hard''} \<or> servings raw < 1"
  by (simp add: Recipe_init_def validate_difficulty_cases validate_servings_def)

text \<open>
  Claim C3. Constructing a Recipe validates and normalises its fields. Difficulty "EASY"
  becomes "easy" and "extreme" is refused; servings 0 is refused; cooking time "30"
  becomes "30 minutes" and "30 minutes" stays as it is. In general the difficulty must
  lower-case to easy, medium or hard, and the servings must be at least 1. The cooking
  time is never refused: the validator tests the value with its surrounding white space
  stripped, so a value whose stripped form does not end in "minutes" is replaced by the
  stripped form followed by " minutes", and a value that ends in "minutes" is returned
  unchanged. Construction succeeds exactly when difficulty and servings pass, and then
  holds the normalised difficulty and cooking time.
\<close>

theorem Recipe_validation:
  "validate_difficulty ''EASY'' = Inr ''easy''
   \<and> isl (validate_difficulty ''extreme'')
   \<and> isl (validate_servings 0)
   \<and> validate_cooking_time ''30'' = ''30 minutes''
   \<and> validate_cooking_time ''30 minutes'' = ''30 minutes''
   \<and> (lower d \<in> {''easy'', ''medium'', ''hard''} \<longrightarrow> validate_difficulty d = Inr (lower d))
   \<and> (lower d \<notin> {''easy'', ''medium'', ''hard''} \<longrightarrow> isl (validate_difficulty d))
   \<and> (1 \<le> n \<longrightarrow> validate_servings n = Inr n)
   \<and> (n < 1 \<longrightarrow> isl (validate_servings n))
   \<and> (\<not> endswith (strip t) ''minutes'' \<longrightarrow> validate_cooking_time t = strip t @ '' minutes'')
   \<and> (endswith t ''minutes'' \<longrightarrow> validate_cooking_time t = t)
   \<and> (lower (difficulty raw) \<in> {''easy'', ''medium'', ''hard''} \<and> 1 \<le> servings raw \<longrightarrow>
        Recipe_init raw = Inr (raw\<lparr>cooking_time := validate_cooking_time (cooking_time raw),
                                   difficulty := lower (difficulty raw)\<rparr>))
   \<and> (lower (difficulty raw) \<notin> {''easy'', ''medium'', ''hard''} \<or> servings raw < 1 \<longrightarrow>
        isl (Recipe_init raw))"
proof (intro conjI)
  show "validate_difficulty ''EASY'' = Inr ''easy''" by code_simp
  show "isl (validate_difficulty ''extreme'')" by code_simp
  show "isl (validate_servings 0)" by (simp add: validate_servings_def)
  show "validate_cooking_time ''30'' = ''30 minutes''" by code_simp
  show "validate_cooking_time ''30 minutes'' = ''30 minutes''" by code_simp
  show "lower d \<in> {''easy'', ''medium'', ''hard''} \<longrightarrow> validate_difficulty d = Inr (lower d)"
    by (simp add: validate_difficulty_cases)
  show "lower d \<notin> {''easy'', ''medium'', ''hard''} \<longrightarrow> isl (validate_difficulty d)"
    by (simp add: validate_difficulty_cases)
  show "1 \<le> n \<longrightarrow> validate_servings n = Inr n" by (simp add: validate_servings_def)
  show "n < 1 \<longrightarrow> isl (validate_servings n)" by (simp add: validate_servings_def)
  show "\<not> endswith (strip t) ''minutes'' \<longrightarrow> validate_cooking_time t = strip t @ '' minutes''"
    by (simp add: validate_cooking_time_def)
  show "endswith t ''minutes'' \<longrightarrow> validate_cooking_time t = t"
    using endswith_strip[of t] by (auto simp: validate_cooking_time_def)
  show "lower (difficulty raw) \<in> {''easy'', ''medium'', ''hard''} \<and> 1 \<le> servings raw \<longrightarrow>
        Recipe_init raw = Inr (raw\<lparr>cooking_time := validate_cooking_time (cooking_time raw),
                                   difficulty := lower (difficulty raw)\<rparr>)"
    using Recipe_init_Inr[of raw] by blast
  show "lower (difficulty raw) \<notin> {''easy'', ''medium'', ''hard''} \<or> servings raw < 1 \<longrightarrow>
        isl (Recipe_init raw)"
    using Recipe_init_isl[of raw] by blast
qed

theorem Recipe_validation_witness:
  "validate_difficulty ''Medium'' = Inr ''medium''
   \<and> isl (validate_difficulty ''simple'')
   \<and> validate_servings 4 = Inr 4
   \<and> isl (validate_servings (- 2))
   \<and> validate_cooking_time '' 45 '' = ''45 minutes''
   \<and> validate_cooking_time ''about 20 minutes'' = ''about 20 minutes''
   \<and> Recipe_init ((example_recipe [''Whisk''])\<lparr>cooking_time := ''10'', difficulty := ''HARD''\<rparr>)
       = Inr ((example_recipe [''Whisk''])\<lparr>cooking_time := ''10 minutes'', difficulty := ''hard''\<rparr>)
   \<and> isl (Recipe_init ((example_recipe [''Whisk''])\<lparr>servings := 0\<rparr>))"
proof -
  have l: "lower ''Medium'' = ''medium''" "lower ''simple'' = ''simple''"
      "lower ''HARD'' = ''hard''" "lower ''easy'' = ''easy''"
    by code_simp+
  have s: "strip '' 45 '' = ''45''" "\<not> endswith ''45'' ''minutes''"
      "endswith ''about 20 minutes'' ''minutes''" "validate_cooking_time ''10'' = ''10 minutes''"
    by code_simp+
  note a = Recipe_validation[of "''Medium''" 4 "'' 45 ''"
      "(example_recipe [''Whisk''])\<lparr>cooking_time := ''10'', difficulty := ''HARD''\<rparr>"]
  note b = Recipe_validation[of "''simple''" "- 2" "''about 20 minutes''"
      "(example_recipe [''Whisk''])\<lparr>servings := 0\<rparr>"]
  show ?thesis
    using a b by (simp add: l s example_recipe_def)
qed

text \<open>
  Read without the stripping, the rule for the cooking time does not hold: "30 minutes "
  with a space after it does not end in "minutes" and comes back unchanged, and "30 "
  comes back as "30 minutes", which is not the value with " minutes" added to it.
\<close>

theorem validate_cooking_time_not_appended:
  "\<not> endswith ''30 minutes '' ''minutes''
   \<and> validate_cooking_time ''30 minutes '' = ''30 minutes ''
   \<and> validate_cooking_time ''30 minutes '' \<noteq> ''30 minutes '' @ '' minutes''
   \<and> \<not> endswith ''30 '' ''minutes''
   \<and> validate_cooking_time ''30 '' = ''30 minutes''
   \<and> validate_cooking_time ''30 '' \<noteq> ''30 '' @ '' minutes''"
  by code_simp

section \<open>The capability check\<close>

text \<open>
  Claim C4. For every tool set and every optional recipe, \<open>can_cook_recipe\<close> is true
  for an absent recipe, and for a present one it is true exactly when the set of the
  lower-cased required tools is a subset of the set of the lower-cased available tools,
  that is, when every required tool equals some available tool up to case. With the
  tools "Knife" and "Frying Pan" it is true for a recipe that requires "knife", false for
  one that requires "oven", and true for an absent recipe.
\<close>

theorem can_cook_recipe_subset:
  "can_cook_recipe toolset None
   \<and> (can_cook_recipe toolset (Some r) \<longleftrightarrow>
        set (map lower (required_tools r)) \<subseteq> set (map lower (available_tools toolset)))
   \<and> (can_cook_recipe toolset (Some r) \<longleftrightarrow>
        (\<forall>t \<in> set (required_tools r). \<exists>a \<in> set (available_tools toolset). lower t = lower a))
   \<and> can_cook_recipe \<lparr>available_tools = [''Knife'', ''Frying Pan'']\<rparr>
        (Some (r\<lparr>required_tools := [''knife'']\<rparr>))
   \<and> \<not> can_cook_recipe \<lparr>available_tools = [''Knife'', ''Frying Pan'']\<rparr>
        (Some (r\<lparr>required_tools := [''oven'']\<rparr>))
   \<and> can_cook_recipe \<lparr>available_tools = [''Knife'', ''Frying Pan'']\<rparr> None"
proof (intro conjI)
  show "can_cook_recipe toolset None"
    by (simp add: can_cook_recipe_def)
  show "can_cook_recipe toolset (Some r) \<longleftrightarrow>
        set (map lower (required_tools r)) \<subseteq> set (map lower (available_tools toolset))"
    by (simp add: can_cook_recipe_def)
  show "can_cook_recipe toolset (Some r) \<longleftrightarrow>
        (\<forall>t \<in> set (required_tools r). \<exists>a \<in> set (available_tools toolset). lower t = lower a)"
    by (auto simp: can_cook_recipe_def)
  show "can_cook_recipe \<lparr>available_tools = [''Knife'', ''Frying Pan'']\<rparr>
        (Some (r\<lparr>required_tools := [''knife'']\<rparr>))"
    by (simp add: can_cook_recipe_def lower_examples)
  show "\<not> can_cook_recipe \<lparr>available_tools = [''Knife'', ''Frying Pan'']\<rparr>
        (Some (r\<lparr>required_tools := [''oven'']\<rparr>))"
    by (simp add: can_cook_recipe_def lower_examples)
  show "can_cook_recipe \<lparr>available_tools = [''Knife'', ''Frying Pan'']\<rparr> None"
    by (simp add: can_cook_recipe_def)
qed

theorem can_cook_recipe_subset_witness:
  "can_cook_recipe ToolSet_default (Some (example_recipe [''WHISK'', ''spoon'', ''whisk'']))
   \<and> \<not> can_cook_recipe ToolSet_default (Some (example_recipe [''whisk'', ''Oven'']))"
proof -
  have a: "set (map lower (required_tools (example_recipe [''WHISK'', ''spoon'', ''whisk'']))) \<subseteq>
        set (map lower (available_tools ToolSet_default))"
    by code_simp
  have b: "\<not> set (map lower (required_tools (example_recipe [''whisk'', ''Oven'']))) \<subseteq>
        set (map lower (available_tools ToolSet_default))"
    by code_simp
  show ?thesis
    using can_cook_recipe_subset[of ToolSet_default "example_recipe [''WHISK'', ''spoon'', ''whisk'']"]
      can_cook_recipe_subset[of ToolSet_default "example_recipe [''whisk'', ''Oven'']"] a b
    by blast
qed

section \<open>The recipe search\<close>

lemma bodies_Inr:
  "\<forall>r \<in> set results. map_of r ''body'' \<noteq> None \<Longrightarrow>
   bodies results = Inr (map (\<lambda>r. the (map_of r ''body'')) results)"
  by (induction results) auto

lemma bodies_Inl:
  "\<exists>r \<in> set results. map_of r ''body'' = None \<Longrightarrow> bodies results = Inl (KeyError ''body'')"
proof (induction results)
  case Nil
  then show ?case by simp
next
  case (Cons r rs)
  show ?case
  proof (cases "map_of r ''body''")
    case None
    then show ?thesis by simp
  next
    case (Some b)
    with Cons.prems have "\<exists>r \<in> set rs. map_of r ''body'' = None" by auto
    then show ?thesis using Some Cons.IH by simp
  qed
qed

text \<open>
  Claim C6. \<open>search_recipes\<close> asks the web search for at most 3 results for the text
  "recipe " followed by the query and returns the body of every result, in order: as
  many strings as the search gave results, so between 0 and 3 when the search gave at
  most the 3 it was asked for. It has no handler: an error of the search reaches the
  caller as it is, and a result without a body raises a key error.
\<close>

theorem search_recipes_results:
  "(ddgs_text (''recipe '' @ q) 3 = Inl e \<longrightarrow> search_recipes ddgs_text q = Inl e)
   \<and> (ddgs_text (''recipe '' @ q) 3 = Inr results \<and> (\<exists>r \<in> set results. map_of r ''body'' = None)
        \<longrightarrow> search_recipes ddgs_text q = Inl (KeyError ''body''))
   \<and> (ddgs_text (''recipe '' @ q) 3 = Inr results \<and> (\<forall>r \<in> set results. map_of r ''body'' \<noteq> None)
        \<longrightarrow> (\<exists>xs. search_recipes ddgs_text q = Inr xs
               \<and> xs = map (\<lambda>r. the (map_of r ''body'')) results
               \<and> length xs = length results
               \<and> (length results \<le> 3 \<longrightarrow> length xs \<le> 3)))"
  using bodies_Inr[of results] bodies_Inl[of results]
  by (auto simp: search_recipes_def)

theorem search_recipes_results_witness:
  "search_recipes ddgs_two_pages ''risotto'' = Inr [''Stir the rice'', ''Boil the stock'']
   \<and> length [''Stir the rice'', ''Boil the stock''] \<le> (3::nat)
   \<and> search_recipes ddgs_unreachable ''risotto'' = Inl (OtherException ''connection failed'')
   \<and> search_recipes (\<lambda>text n. Inr [[(''title'', ''Soup'')]]) ''soup'' = Inl (KeyError ''body'')"
proof -
  let ?rs = "[[(''title'', ''Risotto''), (''body'', ''Stir the rice'')],
        [(''title'', ''Soup''), (''body'', ''Boil the stock'')]]"
  have a: "ddgs_two_pages (''recipe '' @ ''risotto'') 3 = Inr ?rs"
    by (simp add: ddgs_two_pages_def)
  have b: "\<forall>r \<in> set ?rs. map_of r ''body'' \<noteq> None" by simp
  have c: "ddgs_unreachable (''recipe '' @ ''risotto'') 3 = Inl (OtherException ''connection failed'')"
    by (simp add: ddgs_unreachable_def)
  have d: "\<exists>r \<in> set [[(''title'', ''Soup'')]]. map_of r ''body'' = None" by simp
  show ?thesis
    using search_recipes_results[of ddgs_two_pages "''risotto''" TypeError ?rs] a b
      search_recipes_results[of ddgs_unreachable "''risotto''" "OtherException ''connection failed''" "[]"] c
      search_recipes_results[of "\<lambda>text n. Inr [[(''title'', ''Soup'')]]" "''soup''" TypeError "[[(''title'', ''Soup'')]]"] d
    by simp
qed

text \<open>
  Errors of the search are not turned into an empty list: with a search that cannot be
  reached, \<open>search_recipes\<close> raises the error of the search.
\<close>

theorem search_recipes_error_not_suppressed:
  "search_recipes ddgs_unreachable ''risotto'' = Inl (OtherException ''connection failed'')
   \<and> search_recipes ddgs_unreachable ''risotto'' \<noteq> Inr []"
  by (simp add: search_recipes_def ddgs_unreachable_def)

section \<open>The steps\<close>

lemmas step_defs = classify_query_def check_research_needed_def do_research_def
  parse_results_def generate_response_def

text \<open>
  Claim C1. For every query that the classification tool answers with false, the run
  from the fresh state of that query goes as follows: \<open>classify_query\<close> appends its
  one entry; \<open>check_research_needed\<close>, \<open>do_research\<close> and \<open>parse_results\<close> return
  the state as they got it and call no tool; \<open>generate_response\<close> sets the fixed
  refusal text and calls no tool. The final state has every other field at its default,
  the refusal as final response and exactly one entry in the reasoning chain, and the
  only tool call of the run is the classification.
\<close>

theorem non_cooking_run:
  assumes "func_classify_query tools q = Inr False"
  shows "classify_query tools (AgentState_init q) =
           (Returned ((AgentState_init q)\<lparr>reasoning_chain :=
              [''Query classification: not cooking-related'']\<rparr>), [Classify q (Inr False)])
         \<and> (let s = (AgentState_init q)\<lparr>reasoning_chain :=
                      [''Query classification: not cooking-related'']\<rparr>
            in check_research_needed tools s = (Returned s, [])
               \<and> do_research tools s = (Returned s, [])
               \<and> parse_results tools s = (Returned s, [])
               \<and> generate_response tools toolset s =
                   (Returned (s\<lparr>final_response := Some refusal\<rparr>), []))
         \<and> workflow tools toolset (AgentState_init q) =
           (Returned \<lparr>query = q, is_cooking_related = False, needs_research = False,
              research_results = [], recipe = None,
              reasoning_chain = [''Query classification: not cooking-related''],
              final_response = Some refusal\<rparr>,
            [Classify q (Inr False)])"
  using assms
  by (simp add: workflow_def step_defs AgentState_init_def Let_def)

theorem non_cooking_run_witness:
  "workflow (fixed_tools (Inr False) (Inr True) (Inr [''Stir the rice'']) (Inr None) (Inr ''Stir''))
     ToolSet_default (AgentState_init ''What is the capital of France?'') =
   (Returned \<lparr>query = ''What is the capital of France?'', is_cooking_related = False,
      needs_research = False, research_results = [], recipe = None,
      reasoning_chain = [''Query classification: not cooking-related''],
      final_response = Some refusal\<rparr>,
    [Classify ''What is the capital of France?'' (Inr False)])"
proof -
  have "func_classify_query
      (fixed_tools (Inr False) (Inr True) (Inr [''Stir the rice'']) (Inr None) (Inr ''Stir''))
      ''What is the capital of France?'' = Inr False"
    by (simp add: fixed_tools_def)
  from non_cooking_run[OF this, of ToolSet_default] show ?thesis by simp
qed

text \<open>
  Claim C2. For every state with \<open>needs_research\<close> true: when the search tool returns
  the empty list, \<open>do_research\<close> sets \<open>research_results\<close> to the empty list and
  appends nothing to the reasoning chain, the run goes on, and \<open>parse_results\<close> then
  returns the state as it got it, without a tool call; when the search tool returns a
  non-empty list, \<open>do_research\<close> stores that list and appends exactly the entry
  "Performed recipe research".
\<close>

theorem do_research_empty_or_not:
  assumes "needs_research state"
  shows "(func_search_recipes tools (query state) = Inr [] \<longrightarrow>
            do_research tools state =
              (Returned (state\<lparr>research_results := []\<rparr>), [Search (query state) (Inr [])])
            \<and> reasoning_chain (state\<lparr>research_results := []\<rparr>) = reasoning_chain state
            \<and> parse_results tools (state\<lparr>research_results := []\<rparr>) =
                (Returned (state\<lparr>research_results := []\<rparr>), [])
            \<and> next_node (do_research tools state) (parse_results tools) =
                (Returned (state\<lparr>research_results := []\<rparr>), [Search (query state) (Inr [])]))
         \<and> (results \<noteq> [] \<and> func_search_recipes tools (query state) = Inr results \<longrightarrow>
            do_research tools state =
              (Returned (state\<lparr>research_results := results,
                 reasoning_chain := reasoning_chain state @ [''Performed recipe research'']\<rparr>),
               [Search (query state) (Inr results)]))"
  using assms
  by (simp add: step_defs Let_def)

theorem do_research_empty_or_not_witness:
  "do_research (fixed_tools (Inr True) (Inr True) (Inr []) (Inr None) (Inr ''Boil it''))
     ((AgentState_init ''how to cook rice'')\<lparr>needs_research := True\<rparr>) =
     (Returned ((AgentState_init ''how to cook rice'')\<lparr>needs_research := True\<rparr>),
      [Search ''how to cook rice'' (Inr [])])
   \<and> do_research (fixed_tools (Inr True) (Inr True) (Inr [''Rinse'', ''Boil'']) (Inr None) (Inr ''Boil it''))
     ((AgentState_init ''how to cook rice'')\<lparr>needs_research := True\<rparr>) =
     (Returned ((AgentState_init ''how to cook rice'')\<lparr>needs_research := True,
         research_results := [''Rinse'', ''Boil''],
         reasoning_chain := [''Performed recipe research'']\<rparr>),
      [Search ''how to cook rice'' (Inr [''Rinse'', ''Boil''])])"
proof -
  let ?s = "(AgentState_init ''how to cook rice'')\<lparr>needs_research := True\<rparr>"
  have n: "needs_research ?s" by simp
  show ?thesis
    using do_research_empty_or_not[OF n,
        of "fixed_tools (Inr True) (Inr True) (Inr []) (Inr None) (Inr ''Boil it'')" "[]"]
      do_research_empty_or_not[OF n,
        of "fixed_tools (Inr True) (Inr True) (Inr [''Rinse'', ''Boil'']) (Inr None) (Inr ''Boil it'')"
           "[''Rinse'', ''Boil'']"]
    by (simp add: fixed_tools_def AgentState_init_def)
qed

text \<open>
  Claim C7. For every state with \<open>is_cooking_related\<close> true: when the response tool
  returns the empty string, \<open>generate_response\<close> raises an error and leaves the state,
  and with it \<open>final_response\<close>, as it was; when the tool returns a non-empty string,
  the step stores it as \<open>final_response\<close> and appends exactly the entry "Generated
  final response". With the tool of tools.py, an empty content from the language model
  already raises inside the tool, and the step passes that error on.
\<close>

theorem generate_response_cooking:
  assumes "is_cooking_related state"
  shows "(func_generate_response tools (query state) (recipe state) toolset = Inr [] \<longrightarrow>
            fst (generate_response tools toolset state) =
              Raised (ValueError ''Response generation failed'') state
            \<and> final_response (state_of (fst (generate_response tools toolset state))) =
                final_response state)
         \<and> (response \<noteq> [] \<and>
            func_generate_response tools (query state) (recipe state) toolset = Inr response \<longrightarrow>
            fst (generate_response tools toolset state) =
              Returned (state\<lparr>final_response := Some response,
                reasoning_chain := reasoning_chain state @ [''Generated final response'']\<rparr>))
         \<and> (llm (response_message (query state) (recipe state) toolset) = Inr [] \<longrightarrow>
            fst (generate_response (create_tools ddgs_text json_loads llm) toolset state) =
              Raised (ValueError ''Failed to generate response content'') state)"
  using assms
  by (simp add: step_defs Let_def create_tools_def generate_cooking_response_def)

theorem generate_response_cooking_witness:
  "fst (generate_response (fixed_tools (Inr True) (Inr False) (Inr []) (Inr None) (Inr []))
     ToolSet_default ((AgentState_init ''how to cook rice'')\<lparr>is_cooking_related := True\<rparr>)) =
     Raised (ValueError ''Response generation failed'')
       ((AgentState_init ''how to cook rice'')\<lparr>is_cooking_related := True\<rparr>)
   \<and> fst (generate_response (fixed_tools (Inr True) (Inr False) (Inr []) (Inr None) (Inr ''Boil it''))
     ToolSet_default ((AgentState_init ''how to cook rice'')\<lparr>is_cooking_related := True\<rparr>)) =
     Returned ((AgentState_init ''how to cook rice'')\<lparr>is_cooking_related := True,
       final_response := Some ''Boil it'', reasoning_chain := [''Generated final response'']\<rparr>)
   \<and> fst (generate_response (create_tools ddgs_unreachable (\<lambda>s. Inl JSONDecodeError) (\<lambda>p. Inr []))
     ToolSet_default ((AgentState_init ''how to cook rice'')\<lparr>is_cooking_related := True\<rparr>)) =
     Raised (ValueError ''Failed to generate response content'')
       ((AgentState_init ''how to cook rice'')\<lparr>is_cooking_related := True\<rparr>)"
proof -
  let ?s = "(AgentState_init ''how to cook rice'')\<lparr>is_cooking_related := True\<rparr>"
  have c: "is_cooking_related ?s" by simp
  show ?thesis
    using generate_response_cooking[OF c,
        of "fixed_tools (Inr True) (Inr False) (Inr []) (Inr None) (Inr [])" ToolSet_default
           "''x''" "\<lambda>p. Inr []" ddgs_unreachable "\<lambda>s. Inl JSONDecodeError"]
      generate_response_cooking[OF c,
        of "fixed_tools (Inr True) (Inr False) (Inr []) (Inr None) (Inr ''Boil it'')" ToolSet_default
           "''Boil it''" "\<lambda>p. Inr []" ddgs_unreachable "\<lambda>s. Inl JSONDecodeError"]
    by (simp add: fixed_tools_def AgentState_init_def)
qed

section \<open>The workflow\<close>

lemma step_query:
  "query (state_of (fst (classify_query tools s))) = query s"
  "query (state_of (fst (check_research_needed tools s))) = query s"
  "query (state_of (fst (do_research tools s))) = query s"
  "query (state_of (fst (parse_results tools s))) = query s"
  "query (state_of (fst (generate_response tools toolset s))) = query s"
  by (simp_all add: step_defs Let_def split: sum.splits)

lemma next_node_query:
  assumes "query (state_of (fst r)) = q" "\<And>s. query (state_of (fst (node s))) = query s"
  shows "query (state_of (fst (next_node r node))) = q"
proof (cases r)
  case (Pair out evs)
  then show ?thesis using assms
    by (cases out) (auto split: prod.splits, metis fst_conv)
qed

text \<open>
  Claim C9. None of the five steps changes the \<open>query\<close> field, whether it returns or
  raises, and so for every initial state and all tools the state at the end of a run has
  the query of the initial state.
\<close>

theorem workflow_keeps_query:
  "query (state_of (fst (classify_query tools state))) = query state
   \<and> query (state_of (fst (check_research_needed tools state))) = query state
   \<and> query (state_of (fst (do_research tools state))) = query state
   \<and> query (state_of (fst (parse_results tools state))) = query state
   \<and> query (state_of (fst (generate_response tools toolset state))) = query state
   \<and> query (state_of (fst (workflow tools toolset state))) = query state"
  unfolding workflow_def
  by (intro conjI next_node_query step_query)

theorem workflow_keeps_query_witness:
  "query (state_of (fst (workflow
     (fixed_tools (Inr True) (Inr True) (Inr [''Stir the rice'']) (Inr None) (Inl (OtherException ''timeout'')))
     ToolSet_default (AgentState_init ''How do I make a risotto?'')))) = ''How do I make a risotto?''"
  using workflow_keeps_query[of
     "fixed_tools (Inr True) (Inr True) (Inr [''Stir the rice'']) (Inr None) (Inl (OtherException ''timeout''))"
     "AgentState_init ''How do I make a risotto?''" ToolSet_default]
  by (simp add: AgentState_init_def)

lemma empty_search_Search: "empty_search (Search q (Inr xs)) = (xs = [])"
  by (cases xs) simp_all

lemma step_grows:
  "grows s (classify_query tools s)"
  "grows s (check_research_needed tools s)"
  "grows s (do_research tools s)"
  "grows s (parse_results tools s)"
  "grows s (generate_response tools toolset s)"
  by (auto simp: grows_def step_defs Let_def empty_search_Search split: sum.splits)

lemma next_node_grows:
  assumes "grows s r" "\<And>s'. grows s' (node s')"
  shows "grows s (next_node r node)"
proof (cases r)
  case (Pair out evs)
  show ?thesis
  proof (cases out)
    case (Returned s1)
    obtain out' evs' where n: "node s1 = (out', evs')" by (cases "node s1")
    from assms(1) Pair Returned obtain ext where
      e: "reasoning_chain s1 = reasoning_chain s @ ext"
         "length ext + length (filter empty_search evs) = length evs"
      by (auto simp: grows_def)
    from assms(2)[of s1] n obtain ext' where
      e': "reasoning_chain (state_of out') = reasoning_chain s1 @ ext'"
          "returned out' \<longrightarrow> length ext' + length (filter empty_search evs') = length evs'"
      by (auto simp: grows_def)
    have "reasoning_chain (state_of out') = reasoning_chain s @ (ext @ ext')"
      using e e' by simp
    moreover have "returned out' \<longrightarrow>
        length (ext @ ext') + length (filter empty_search (evs @ evs')) = length (evs @ evs')"
      using e(2) e'(2) by auto
    ultimately show ?thesis
      unfolding grows_def using Pair Returned n by (simp del: append_assoc)
  next
    case (Raised e s1)
    then show ?thesis using assms(1) Pair by (simp add: grows_def)
  qed
qed

lemma workflow_grows: "grows s (workflow tools toolset s)"
  unfolding workflow_def by (intro next_node_grows step_grows)

text \<open>
  Claim C5. For every initial state and all tools, the reasoning chain after a run is the
  initial chain with entries appended. A step does its work when it passes its guard and
  calls its tool; when the run returns, the number of appended entries is the number of
  steps that did so, less the \<open>do_research\<close> whose search came back empty, which
  stores the empty list and appends nothing. A step whose guard is false returns the
  state as it got it and calls no tool, and the refusal branch of
  \<open>generate_response\<close> appends nothing.
\<close>

theorem reasoning_chain_growth:
  "(\<exists>ext. reasoning_chain (state_of (fst (workflow tools toolset state))) =
            reasoning_chain state @ ext
      \<and> (returned (fst (workflow tools toolset state)) \<longrightarrow>
           length ext + length (filter empty_search (snd (workflow tools toolset state)))
             = length (snd (workflow tools toolset state))))
   \<and> (\<not> is_cooking_related state \<longrightarrow> check_research_needed tools state = (Returned state, []))
   \<and> (\<not> needs_research state \<longrightarrow> do_research tools state = (Returned state, []))
   \<and> (research_results state = [] \<longrightarrow> parse_results tools state = (Returned state, []))
   \<and> (\<not> is_cooking_related state \<longrightarrow>
        generate_response tools toolset state =
          (Returned (state\<lparr>final_response := Some refusal\<rparr>), []))"
  using workflow_grows[of state tools toolset]
  by (simp add: grows_def step_defs)

theorem reasoning_chain_growth_witness:
  "returned (fst (workflow (fixed_tools (Inr True) (Inr True) (Inr []) (Inr None) (Inr ''Boil it''))
       ToolSet_default (AgentState_init ''how to cook rice'')))
   \<and> length (reasoning_chain (state_of (fst (workflow
       (fixed_tools (Inr True) (Inr True) (Inr []) (Inr None) (Inr ''Boil it''))
       ToolSet_default (AgentState_init ''how to cook rice''))))) + 1 = 4
   \<and> length (snd (workflow (fixed_tools (Inr True) (Inr True) (Inr []) (Inr None) (Inr ''Boil it''))
       ToolSet_default (AgentState_init ''how to cook rice''))) = 4
   \<and> check_research_needed (fixed_tools (Inr True) (Inr True) (Inr []) (Inr None) (Inr ''Boil it''))
       (AgentState_init ''how to cook rice'') = (Returned (AgentState_init ''how to cook rice''), [])
   \<and> do_research (fixed_tools (Inr True) (Inr True) (Inr []) (Inr None) (Inr ''Boil it''))
       (AgentState_init ''how to cook rice'') = (Returned (AgentState_init ''how to cook rice''), [])
   \<and> parse_results (fixed_tools (Inr True) (Inr True) (Inr []) (Inr None) (Inr ''Boil it''))
       (AgentState_init ''how to cook rice'') = (Returned (AgentState_init ''how to cook rice''), [])"
proof -
  let ?t = "fixed_tools (Inr True) (Inr True) (Inr []) (Inr None) (Inr ''Boil it'')"
  let ?s = "AgentState_init ''how to cook rice''"
  have run: "workflow ?t ToolSet_default ?s =
   (Returned \<lparr>query = ''how to cook rice'', is_cooking_related = True, needs_research = True,
      research_results = [], recipe = None,
      reasoning_chain = [''Query classification: cooking-related'', ''Research needed'',
        ''Generated final response''],
      final_response = Some ''Boil it''\<rparr>,
    [Classify ''how to cook rice'' (Inr True), NeedsResearch ''how to cook rice'' (Inr True),
     Search ''how to cook rice'' (Inr []),
     Respond ''how to cook rice'' None ToolSet_default (Inr ''Boil it'')])"
    by (simp add: workflow_def step_defs AgentState_init_def fixed_tools_def Let_def)
  have init: "\<not> is_cooking_related ?s" "\<not> needs_research ?s" "research_results ?s = []"
      "reasoning_chain ?s = []"
    by (simp_all add: AgentState_init_def)
  show ?thesis
    using reasoning_chain_growth[of ?t ToolSet_default ?s] init
    by (auto simp: run)
qed

text \<open>
  The count alone, without the exception for the empty search, does not hold: in this
  run four steps call their tool and three entries are appended.
\<close>

theorem chain_shorter_than_calls:
  "workflow (fixed_tools (Inr True) (Inr True) (Inr []) (Inr None) (Inr ''Boil it''))
     ToolSet_default (AgentState_init ''how to cook rice'') =
   (Returned \<lparr>query = ''how to cook rice'', is_cooking_related = True, needs_research = True,
      research_results = [], recipe = None,
      reasoning_chain = [''Query classification: cooking-related'', ''Research needed'',
        ''Generated final response''],
      final_response = Some ''Boil it''\<rparr>,
    [Classify ''how to cook rice'' (Inr True), NeedsResearch ''how to cook rice'' (Inr True),
     Search ''how to cook rice'' (Inr []),
     Respond ''how to cook rice'' None ToolSet_default (Inr ''Boil it'')])
   \<and> length [''Query classification: cooking-related'', ''Research needed'',
        ''Generated final response''] \<noteq> length
    [Classify ''how to cook rice'' (Inr True), NeedsResearch ''how to cook rice'' (Inr True),
     Search ''how to cook rice'' (Inr []),
     Respond ''how to cook rice'' None ToolSet_default (Inr ''Boil it'')]"
  by (simp add: workflow_def step_defs AgentState_init_def fixed_tools_def Let_def)

lemma step_answers:
  "\<forall>ev \<in> set (snd (classify_query t1 s)). answers t2 ev \<Longrightarrow>
     classify_query t2 s = classify_query t1 s"
  "\<forall>ev \<in> set (snd (check_research_needed t1 s)). answers t2 ev \<Longrightarrow>
     check_research_needed t2 s = check_research_needed t1 s"
  "\<forall>ev \<in> set (snd (do_research t1 s)). answers t2 ev \<Longrightarrow>
     do_research t2 s = do_research t1 s"
  "\<forall>ev \<in> set (snd (parse_results t1 s)). answers t2 ev \<Longrightarrow>
     parse_results t2 s = parse_results t1 s"
  "\<forall>ev \<in> set (snd (generate_response t1 toolset s)). answers t2 ev \<Longrightarrow>
     generate_response t2 toolset s = generate_response t1 toolset s"
  by (simp_all add: step_defs Let_def split: if_splits)

lemma next_node_events: "set (snd r) \<subseteq> set (snd (next_node r node))"
proof (cases r)
  case (Pair out evs)
  then show ?thesis by (cases out) (auto split: prod.splits)
qed

lemma next_node_answers:
  assumes "\<forall>ev \<in> set (snd (next_node r1 node1)). answers t2 ev"
    and "(\<forall>ev \<in> set (snd r1). answers t2 ev) \<Longrightarrow> r2 = r1"
    and "\<And>s. \<forall>ev \<in> set (snd (node1 s)). answers t2 ev \<Longrightarrow> node2 s = node1 s"
  shows "next_node r2 node2 = next_node r1 node1"
proof -
  have "\<forall>ev \<in> set (snd r1). answers t2 ev"
    using assms(1) next_node_events[of r1 node1] by blast
  then have r: "r2 = r1" by (rule assms(2))
  obtain out evs where p: "r1 = (out, evs)" by (cases r1)
  show ?thesis
  proof (cases out)
    case (Returned s)
    have "\<forall>ev \<in> set (snd (node1 s)). answers t2 ev"
      using assms(1) p Returned by (auto split: prod.splits)
    then have "node2 s = node1 s" by (rule assms(3))
    then show ?thesis using r p Returned by simp
  next
    case (Raised e s)
    then show ?thesis using r p by simp
  qed
qed

text \<open>
  Claim C8. A run is determined by the initial state and the answers of the tools: if a
  second set of tools gives, to every call made in a run with a first set, the answer
  that the first set gave, then the run with the second set from the same state is the
  same run, with the same reasoning chain and the same final response.
\<close>

theorem workflow_deterministic:
  assumes "\<forall>ev \<in> set (snd (workflow tools1 toolset state)). answers tools2 ev"
  shows "workflow tools2 toolset state = workflow tools1 toolset state
         \<and> reasoning_chain (state_of (fst (workflow tools2 toolset state))) =
             reasoning_chain (state_of (fst (workflow tools1 toolset state)))
         \<and> final_response (state_of (fst (workflow tools2 toolset state))) =
             final_response (state_of (fst (workflow tools1 toolset state)))"
proof -
  have "workflow tools2 toolset state = workflow tools1 toolset state"
    using assms unfolding workflow_def
    by (intro next_node_answers[where ?t2.0 = tools2] step_answers) assumption+
  then show ?thesis by simp
qed

theorem workflow_deterministic_witness:
  "workflow (fixed_tools (Inr True) (Inr False) (Inl (OtherException ''offline'')) (Inr None)
       (Inr ''Whisk the eggs'')) ToolSet_default (AgentState_init ''how to cook eggs'') =
   workflow (fixed_tools (Inr True) (Inr False) (Inr [''Beat'']) (Inl TypeError)
       (Inr ''Whisk the eggs'')) ToolSet_default (AgentState_init ''how to cook eggs'')"
proof -
  let ?t1 = "fixed_tools (Inr True) (Inr False) (Inr [''Beat'']) (Inl TypeError) (Inr ''Whisk the eggs'')"
  let ?t2 = "fixed_tools (Inr True) (Inr False) (Inl (OtherException ''offline'')) (Inr None)
       (Inr ''Whisk the eggs'')"
  let ?s = "AgentState_init ''how to cook eggs''"
  have run: "snd (workflow ?t1 ToolSet_default ?s) =
    [Classify ''how to cook eggs'' (Inr True), NeedsResearch ''how to cook eggs'' (Inr False),
     Respond ''how to cook eggs'' None ToolSet_default (Inr ''Whisk the eggs'')]"
    by (simp add: workflow_def step_defs AgentState_init_def fixed_tools_def Let_def)
  have "\<forall>ev \<in> set (snd (workflow ?t1 ToolSet_default ?s)). answers ?t2 ev"
    unfolding run by (simp add: fixed_tools_def)
  from workflow_deterministic[OF this] show ?thesis by simp
qed

end
